theory Spec2Isabelle
  imports Main "HOL-Library.Multiset"
begin

section \<open>Python values, exceptions and dictionaries\<close>

text \<open>
  The two call surfaces of the repository, \<^verbatim>\<open>jobspy_scraper\<close> (src/jobspy_demo.py) and
  \<^verbatim>\<open>JobSpyScraperTool.scrape_job_listings\<close> (src/jobspy_tool.py), are Python and so
  dynamically typed: an argument is whatever object the caller passes. The values that
  reach the code are modelled by \<open>pyval\<close>. \<open>PSeries\<close> stands for a pandas Series, the
  one kind of object here whose truth value cannot be taken. \<open>PObject c\<close> is any other
  object, of a class named \<open>c\<close> that defines neither truth value nor iteration (a
  member of an enumeration, say). \<open>PNaN\<close> is the float \<^verbatim>\<open>nan\<close>, which pandas uses for
  a missing cell; other floats are not modelled.
\<close>

datatype pyval =
    PNone
  | PBool bool
  | PInt int
  | PStr string
  | PList "pyval list"
  | PDict "(pyval \<times> pyval) list"
  | PSeries "pyval list"
  | PObject string
  | PNaN

text \<open>
  A raised exception is known to the code by two things only: whether it is an instance
  of \<^verbatim>\<open>Exception\<close> (what \<^verbatim>\<open>except Exception\<close> tests; \<^verbatim>\<open>KeyboardInterrupt\<close> and
  \<^verbatim>\<open>SystemExit\<close> are not) and its text \<^verbatim>\<open>str(e)\<close>.
\<close>

datatype exn = Raised (from_Exception: bool) (str_exn: string)

definition TypeError :: "string \<Rightarrow> exn" where
  "TypeError msg = Raised True msg"

definition ValueError :: "string \<Rightarrow> exn" where
  "ValueError msg = Raised True msg"

definition KeyError :: "string \<Rightarrow> exn" where
  "KeyError msg = Raised True msg"

definition KeyboardInterrupt :: exn where
  "KeyboardInterrupt = Raised False []"

definition SystemExit :: "string \<Rightarrow> exn" where
  "SystemExit code = Raised False code"

text \<open>Sequencing of steps that may raise: the first exception ends the block.\<close>

definition bind_exn :: "exn + 'a \<Rightarrow> ('a \<Rightarrow> exn + 'b) \<Rightarrow> exn + 'b" where
  "bind_exn m f = (case m of Inl e \<Rightarrow> Inl e | Inr x \<Rightarrow> f x)"

text \<open>
  \<^verbatim>\<open>try: body  except Exception as e: return handler(e)\<close>. An exception that is not an
  instance of \<^verbatim>\<open>Exception\<close> passes through the handler to the caller.
\<close>

definition try_except_Exception :: "exn + pyval \<Rightarrow> (exn \<Rightarrow> pyval) \<Rightarrow> exn + pyval" where
  "try_except_Exception body handler =
     (case body of
        Inr r \<Rightarrow> Inr r
      | Inl e \<Rightarrow> if from_Exception e then Inr (handler e) else Inl e)"

text \<open>\<^verbatim>\<open>d[k]\<close> on a returned dictionary with a text key; \<open>None\<close> when the key is absent.\<close>

fun dict_get :: "pyval \<Rightarrow> string \<Rightarrow> pyval option" where
  "dict_get (PDict kvs) k = map_of kvs (PStr k)"
| "dict_get PNone k = None"
| "dict_get (PBool b) k = None"
| "dict_get (PInt i) k = None"
| "dict_get (PStr s) k = None"
| "dict_get (PList xs) k = None"
| "dict_get (PSeries xs) k = None"
| "dict_get (PObject c) k = None"
| "dict_get PNaN k = None"

text \<open>\<^verbatim>\<open>bool(x)\<close>, as \<^verbatim>\<open>if x:\<close> and \<^verbatim>\<open>x or y\<close> take it.\<close>

fun truth :: "pyval \<Rightarrow> exn + bool" where
  "truth PNone = Inr False"
| "truth (PBool b) = Inr b"
| "truth (PInt i) = Inr (i \<noteq> 0)"
| "truth (PStr s) = Inr (s \<noteq> [])"
| "truth (PList xs) = Inr (xs \<noteq> [])"
| "truth (PDict kvs) = Inr (kvs \<noteq> [])"
| "truth (PObject c) = Inr True"
| "truth PNaN = Inr True"
| "truth (PSeries xs) =
     Inl (ValueError ''The truth value of a Series is ambiguous. Use a.empty, a.bool(), a.item(), a.any() or a.all().'')"

text \<open>\<^verbatim>\<open>x or y\<close>: \<open>x\<close> itself when it is true, else \<open>y\<close>.\<close>

definition py_or :: "pyval \<Rightarrow> pyval \<Rightarrow> exn + pyval" where
  "py_or x y = bind_exn (truth x) (\<lambda>t. Inr (if t then x else y))"

fun type_name :: "pyval \<Rightarrow> string" where
  "type_name PNone = ''NoneType''"
| "type_name (PBool b) = ''bool''"
| "type_name (PInt i) = ''int''"
| "type_name (PStr s) = ''str''"
| "type_name (PList xs) = ''list''"
| "type_name (PDict kvs) = ''dict''"
| "type_name (PSeries xs) = ''Series''"
| "type_name (PObject c) = c"
| "type_name PNaN = ''float''"

text \<open>A name between single quotes, as error messages show it.\<close>

definition quoted :: "string \<Rightarrow> string" where
  "quoted s = CHR 0x27 # s @ [CHR 0x27]"

definition digit_char :: "nat \<Rightarrow> char" where
  "digit_char d = ''0123456789'' ! d"

fun str_nat :: "nat \<Rightarrow> string" where
  "str_nat n = (if n < 10 then [digit_char n] else str_nat (n div 10) @ [digit_char (n mod 10)])"

declare str_nat.simps [simp del]

text \<open>What iterating over a value yields; \<open>None\<close> for a value that is not iterable.\<close>

fun py_iter :: "pyval \<Rightarrow> pyval list option" where
  "py_iter (PList xs) = Some xs"
| "py_iter (PStr s) = Some (map (\<lambda>c. PStr [c]) s)"
| "py_iter (PDict kvs) = Some (map fst kvs)"
| "py_iter (PSeries xs) = Some xs"
| "py_iter PNone = None"
| "py_iter (PBool b) = None"
| "py_iter (PInt i) = None"
| "py_iter (PObject c) = None"
| "py_iter PNaN = None"

text \<open>\<^verbatim>\<open>sep.join(items)\<close>: every item must be a \<^verbatim>\<open>str\<close>; the first one that is not raises.\<close>

fun join_items :: "string \<Rightarrow> nat \<Rightarrow> pyval list \<Rightarrow> exn + string" where
  "join_items sep i [] = Inr []"
| "join_items sep i (PStr s # rest) =
     bind_exn (join_items sep (Suc i) rest) (\<lambda>t. Inr (if rest = [] then s else s @ sep @ t))"
| "join_items sep i (v # rest) =
     Inl (TypeError (''sequence item '' @ str_nat i @ '': expected str instance, ''
                     @ type_name v @ '' found''))"

definition py_join :: "string \<Rightarrow> pyval \<Rightarrow> exn + string" where
  "py_join sep v =
     (case py_iter v of
        None \<Rightarrow> Inl (TypeError ''can only join an iterable'')
      | Some items \<Rightarrow> join_items sep 0 items)"

text \<open>
  \<^verbatim>\<open>dict(pairs)\<close>: a key that comes again keeps its place and takes the later value.
\<close>

fun dict_set :: "pyval \<Rightarrow> pyval \<Rightarrow> (pyval \<times> pyval) list \<Rightarrow> (pyval \<times> pyval) list" where
  "dict_set k v [] = [(k, v)]"
| "dict_set k v (kv # d) = (if fst kv = k then (k, v) # d else kv # dict_set k v d)"

definition py_dict :: "(pyval \<times> pyval) list \<Rightarrow> (pyval \<times> pyval) list" where
  "py_dict pairs = foldl (\<lambda>d kv. dict_set (fst kv) (snd kv) d) [] pairs"

section \<open>The table returned by the scrape engine\<close>

text \<open>
  \<^verbatim>\<open>scrape_jobs\<close> returns a pandas DataFrame: column labels, which need not be distinct,
  and rows that hold one cell per column. The model covers tables of text: a cell is a
  text or the missing value \<^verbatim>\<open>nan\<close>. Numbers, dates and booleans in cells are left out
  (pandas stores and returns them as floats or as objects of its own, depending on what
  else the column holds). The code looks into the cells of the columns \<^verbatim>\<open>company\<close> and
  \<^verbatim>\<open>city\<close> only.
\<close>

datatype cell = NaN | Text string

fun cell_value :: "cell \<Rightarrow> pyval" where
  "cell_value NaN = PNaN"
| "cell_value (Text s) = PStr s"

record dataframe =
  columns :: "string list"
  rows :: "cell list list"

text \<open>\<^verbatim>\<open>df.empty\<close>: true when either axis has length 0, so also for rows without columns.\<close>

definition df_empty :: "dataframe \<Rightarrow> bool" where
  "df_empty df = (rows df = [] \<or> columns df = [])"

text \<open>\<^verbatim>\<open>len(df)\<close>: the number of rows.\<close>

definition df_len :: "dataframe \<Rightarrow> nat" where
  "df_len df = length (rows df)"

text \<open>
  \<^verbatim>\<open>df.to_dict(orient="records")\<close>: for each row the dictionary built from the pairs of
  column label and cell, so that a repeated label appears once, with the cell of its
  last column.
\<close>

definition record_of :: "string list \<Rightarrow> cell list \<Rightarrow> pyval" where
  "record_of cols r = PDict (py_dict (zip (map PStr cols) (map cell_value r)))"

definition to_dict_records :: "dataframe \<Rightarrow> pyval list" where
  "to_dict_records df = map (record_of (columns df)) (rows df)"

fun index_of :: "'a \<Rightarrow> 'a list \<Rightarrow> nat" where
  "index_of c [] = 0"
| "index_of c (x # xs) = (if x = c then 0 else Suc (index_of c xs))"

definition cell_at :: "cell list \<Rightarrow> nat \<Rightarrow> cell" where
  "cell_at r i = (if i < length r then r ! i else NaN)"

text \<open>The cells of the one column with a given label, top to bottom.\<close>

definition column :: "dataframe \<Rightarrow> string \<Rightarrow> cell list" where
  "column df name = map (\<lambda>r. cell_at r (index_of name (columns df))) (rows df)"

text \<open>
  \<^verbatim>\<open>df[name]\<close>: a Series when exactly one column has the label; the sub-table of the
  columns that have it when there are several (only their number matters below);
  \<^verbatim>\<open>KeyError\<close> when there is none.
\<close>

datatype selection = Series "cell list" | Frame nat

definition getitem :: "dataframe \<Rightarrow> string \<Rightarrow> exn + selection" where
  "getitem df name =
     (let n = count_list (columns df) name
      in if n = 0 then Inl (KeyError (quoted name))
         else if n = 1 then Inr (Series (column df name))
         else Inr (Frame n))"

definition notna :: "cell list \<Rightarrow> cell list" where
  "notna col = filter (\<lambda>c. c \<noteq> NaN) col"

text \<open>\<^verbatim>\<open>Series.nunique()\<close>: the number of distinct values, missing cells left out.\<close>

definition nunique :: "cell list \<Rightarrow> nat" where
  "nunique col = length (remdups (notna col))"

text \<open>
  \<^verbatim>\<open>Series.value_counts()\<close>: each distinct value with its number of occurrences, missing
  cells left out, ordered by descending count. pandas tabulates the values in order of
  first appearance and then sorts the table by count; how the sort orders equal counts
  is not documented, so the sort is a parameter \<open>sort_counts\<close> of the model.
\<close>

definition first_seen :: "'a list \<Rightarrow> 'a list" where
  "first_seen xs = rev (remdups (rev xs))"

definition value_counts ::
  "((cell \<times> nat) list \<Rightarrow> (cell \<times> nat) list) \<Rightarrow> cell list \<Rightarrow> (cell \<times> nat) list" where
  "value_counts sort_counts col =
     (let vals = notna col
      in sort_counts (map (\<lambda>k. (k, count_list vals k)) (first_seen vals)))"

text \<open>\<^verbatim>\<open>.head(n)\<close> and \<^verbatim>\<open>.to_dict()\<close> of the counted series.\<close>

definition head :: "nat \<Rightarrow> (cell \<times> nat) list \<Rightarrow> (cell \<times> nat) list" where
  "head n s = take n s"

definition counts_to_dict :: "(cell \<times> nat) list \<Rightarrow> pyval" where
  "counts_to_dict s = PDict (map (\<lambda>(k, n). (cell_value k, PInt (int n))) s)"


text \<open>One such sort: insertion into descending order, first seen first among equal counts.\<close>

fun insert_count :: "cell \<times> nat \<Rightarrow> (cell \<times> nat) list \<Rightarrow> (cell \<times> nat) list" where
  "insert_count x [] = [x]"
| "insert_count x (y # ys) = (if snd y \<le> snd x then x # y # ys else y # insert_count x ys)"

definition stable_sort_counts :: "(cell \<times> nat) list \<Rightarrow> (cell \<times> nat) list" where
  "stable_sort_counts t = foldr insert_count t []"

text \<open>
  \<^verbatim>\<open>int(df[name].nunique())\<close>. On a sub-table \<^verbatim>\<open>nunique()\<close> gives one count per column, a
  Series of two or more numbers, which \<^verbatim>\<open>int\<close> refuses.
\<close>

definition int_nunique :: "dataframe \<Rightarrow> string \<Rightarrow> exn + pyval" where
  "int_nunique df name =
     bind_exn (getitem df name) (\<lambda>sel.
       case sel of
         Series col \<Rightarrow> Inr (PInt (int (nunique col)))
       | Frame n \<Rightarrow>
           Inl (TypeError (''cannot convert the series to <class '' @ quoted ''int'' @ ''>'')))"

text \<open>
  \<^verbatim>\<open>df[name].value_counts().head(10).to_dict()\<close>. On a sub-table \<^verbatim>\<open>value_counts()\<close> groups
  by the column labels and refuses a label that several columns share.
\<close>

definition top_value_counts ::
  "((cell \<times> nat) list \<Rightarrow> (cell \<times> nat) list) \<Rightarrow> dataframe \<Rightarrow> string \<Rightarrow> exn + pyval" where
  "top_value_counts sort_counts df name =
     bind_exn (getitem df name) (\<lambda>sel.
       case sel of
         Series col \<Rightarrow> Inr (counts_to_dict (head 10 (value_counts sort_counts col)))
       | Frame n \<Rightarrow>
           Inl (ValueError (''Grouper for '' @ quoted name @ '' not 1-dimensional'')))"

section \<open>The arguments of a call\<close>

text \<open>
  The fifteen declared parameters, shared by both surfaces. Python binds a keyword that
  names a declared parameter to that parameter, so the \<^verbatim>\<open>**kwargs\<close> of the plain
  function (a mapping from names to values) never holds one of the fifteen names.
\<close>

record arguments =
  search_term :: pyval
  location :: pyval
  site_name :: pyval
  country_indeed :: pyval
  results_wanted :: pyval
  hours_old :: pyval
  distance :: pyval
  offset :: pyval
  job_type :: pyval
  is_remote :: pyval
  easy_apply :: pyval
  google_search_term :: pyval
  linkedin_fetch_description :: pyval
  enforce_annual_salary :: pyval
  verbose :: pyval

text \<open>The defaults of the signature: a call that passes nothing.\<close>

definition default_args :: arguments where
  "default_args =
     \<lparr> search_term = PStr ''Software Engineer'',
       location = PStr ''San Francisco, CA'',
       site_name = PNone,
       country_indeed = PStr ''USA'',
       results_wanted = PInt 20,
       hours_old = PInt 72,
       distance = PInt 50,
       offset = PInt 0,
       job_type = PStr [],
       is_remote = PNone,
       easy_apply = PNone,
       google_search_term = PNone,
       linkedin_fetch_description = PBool False,
       enforce_annual_salary = PBool False,
       verbose = PInt 2 \<rparr>"

definition parameter_names :: "string set" where
  "parameter_names =
     {''search_term'', ''location'', ''site_name'', ''country_indeed'', ''results_wanted'',
      ''hours_old'', ''distance'', ''offset'', ''job_type'', ''is_remote'', ''easy_apply'',
      ''google_search_term'', ''linkedin_fetch_description'', ''enforce_annual_salary'',
      ''verbose''}"

definition kwargs_ok :: "(string \<rightharpoonup> pyval) \<Rightarrow> bool" where
  "kwargs_ok kwargs = (dom kwargs \<inter> parameter_names = {})"

definition default_site_name :: pyval where
  "default_site_name =
     PList [PStr ''indeed'', PStr ''linkedin'', PStr ''zip_recruiter'', PStr ''google'']"

section \<open>The plain function: src/jobspy_demo.py\<close>

text \<open>
  Lines 72 to 101: the parameters forwarded to \<^verbatim>\<open>scrape_jobs(**params)\<close>, a mapping from
  keyword to value. Taking the truth value of \<^verbatim>\<open>google_search_term\<close> and of
  \<^verbatim>\<open>job_type\<close> may raise.
\<close>

definition jobspy_scraper_params :: "arguments \<Rightarrow> (string \<rightharpoonup> pyval) \<Rightarrow> exn + (string \<rightharpoonup> pyval)" where
  "jobspy_scraper_params a kwargs =
     (let site = (if site_name a = PNone then default_site_name else site_name a)
      in bind_exn (py_or (google_search_term a) (search_term a)) (\<lambda>g.
         let params =
               [''site_name'' \<mapsto> site,
                ''search_term'' \<mapsto> search_term a,
                ''google_search_term'' \<mapsto> g,
                ''location'' \<mapsto> location a,
                ''country_indeed'' \<mapsto> country_indeed a,
                ''results_wanted'' \<mapsto> results_wanted a,
                ''hours_old'' \<mapsto> hours_old a,
                ''distance'' \<mapsto> distance a,
                ''offset'' \<mapsto> offset a,
                ''verbose'' \<mapsto> verbose a,
                ''enforce_annual_salary'' \<mapsto> enforce_annual_salary a,
                ''linkedin_fetch_description'' \<mapsto> linkedin_fetch_description a]
         in bind_exn (truth (job_type a)) (\<lambda>jt.
            let params = (if jt then params(''job_type'' \<mapsto> job_type a) else params);
                params = (if is_remote a \<noteq> PNone
                          then params(''is_remote'' \<mapsto> is_remote a) else params);
                params = (if easy_apply a \<noteq> PNone
                          then params(''easy_apply'' \<mapsto> easy_apply a) else params)
            in Inr (params ++ kwargs))))"

text \<open>
  Lines 106 to 128: the result built from the table. The entries of a dictionary display
  are evaluated in order, so \<^verbatim>\<open>unique_companies\<close> comes before \<^verbatim>\<open>top_locations\<close>; either
  may raise, for a label that several columns share.
\<close>

definition jobspy_scraper_result ::
  "((cell \<times> nat) list \<Rightarrow> (cell \<times> nat) list) \<Rightarrow> dataframe \<Rightarrow> exn + pyval" where
  "jobspy_scraper_result sort_counts jobs_df =
     (if df_empty jobs_df then
        Inr (PDict [(PStr ''success'', PBool True),
                    (PStr ''count'', PInt 0),
                    (PStr ''data'', PList []),
                    (PStr ''message'', PStr ''No jobs found. Try adjusting your filters.'')])
      else
        let data_json = to_dict_records jobs_df
        in bind_exn (if ''company'' \<in> set (columns jobs_df)
                     then int_nunique jobs_df ''company'' else Inr PNone) (\<lambda>unique_companies.
           bind_exn (if ''city'' \<in> set (columns jobs_df)
                     then top_value_counts sort_counts jobs_df ''city''
                     else Inr (PDict [])) (\<lambda>top_locations.
           Inr (PDict [(PStr ''success'', PBool True),
                       (PStr ''count'', PInt (int (df_len jobs_df))),
                       (PStr ''data'', PList data_json),
                       (PStr ''metadata'',
                          PDict [(PStr ''unique_companies'', unique_companies),
                                 (PStr ''top_locations'', top_locations)])]))))"

text \<open>Lines 130 to 134: the handler.\<close>

definition failure :: "exn \<Rightarrow> pyval" where
  "failure e = PDict [(PStr ''success'', PBool False), (PStr ''error'', PStr (str_exn e))]"

text \<open>
  The whole function. \<open>scrape_jobs\<close> is the external engine: given the forwarded
  parameters it returns a table or raises. The value is \<open>Inr\<close> of the returned
  dictionary, or \<open>Inl\<close> of the exception that reaches the caller.
\<close>

definition jobspy_scraper ::
  "((string \<rightharpoonup> pyval) \<Rightarrow> exn + dataframe) \<Rightarrow> ((cell \<times> nat) list \<Rightarrow> (cell \<times> nat) list)
     \<Rightarrow> arguments \<Rightarrow> (string \<rightharpoonup> pyval) \<Rightarrow> exn + pyval" where
  "jobspy_scraper scrape_jobs sort_counts a kwargs =
     try_except_Exception
       (bind_exn (jobspy_scraper_params a kwargs) (\<lambda>params.
        bind_exn (scrape_jobs params) (\<lambda>jobs_df.
        jobspy_scraper_result sort_counts jobs_df)))
       failure"






section \<open>The toolkit method: src/jobspy_tool.py\<close>

text \<open>
  The method is a coroutine; the model gives what awaiting it yields. The logger's
  output is no part of the result, but building the first log line (line 51) joins
  \<^verbatim>\<open>site_name\<close> with \<^verbatim>\<open>', '\<close>, which raises unless every item is a \<^verbatim>\<open>str\<close>.
  Lines 48 to 73: everything before the call of \<^verbatim>\<open>scrape_jobs\<close>.
\<close>

definition scrape_job_listings_params :: "arguments \<Rightarrow> exn + (string \<rightharpoonup> pyval)" where
  "scrape_job_listings_params a =
     (let site = (if site_name a = PNone then default_site_name else site_name a)
      in bind_exn (py_join '', '' site) (\<lambda>joined.
         bind_exn (py_or (google_search_term a) (search_term a)) (\<lambda>g.
         let params =
               [''site_name'' \<mapsto> site,
                ''search_term'' \<mapsto> search_term a,
                ''google_search_term'' \<mapsto> g,
                ''location'' \<mapsto> location a,
                ''country_indeed'' \<mapsto> country_indeed a,
                ''results_wanted'' \<mapsto> results_wanted a,
                ''hours_old'' \<mapsto> hours_old a,
                ''distance'' \<mapsto> distance a,
                ''offset'' \<mapsto> offset a,
                ''verbose'' \<mapsto> verbose a,
                ''enforce_annual_salary'' \<mapsto> enforce_annual_salary a,
                ''linkedin_fetch_description'' \<mapsto> linkedin_fetch_description a]
         in bind_exn (truth (job_type a)) (\<lambda>jt.
            let params = (if jt then params(''job_type'' \<mapsto> job_type a) else params);
                params = (if is_remote a \<noteq> PNone
                          then params(''is_remote'' \<mapsto> is_remote a) else params);
                params = (if easy_apply a \<noteq> PNone
                          then params(''easy_apply'' \<mapsto> easy_apply a) else params)
            in Inr params))))"

text \<open>Lines 78 to 102.\<close>

definition scrape_job_listings_result ::
  "((cell \<times> nat) list \<Rightarrow> (cell \<times> nat) list) \<Rightarrow> dataframe \<Rightarrow> exn + pyval" where
  "scrape_job_listings_result sort_counts jobs_df =
     (if df_empty jobs_df then
        Inr (PDict [(PStr ''success'', PBool True),
                    (PStr ''count'', PInt 0),
                    (PStr ''data'', PList []),
                    (PStr ''message'', PStr ''No jobs found. Try adjusting your filters.'')])
      else
        let data_json = to_dict_records jobs_df
        in bind_exn (if ''company'' \<in> set (columns jobs_df)
                     then int_nunique jobs_df ''company'' else Inr PNone) (\<lambda>unique_companies.
           bind_exn (if ''city'' \<in> set (columns jobs_df)
                     then top_value_counts sort_counts jobs_df ''city''
                     else Inr (PDict [])) (\<lambda>top_locations.
           Inr (PDict [(PStr ''success'', PBool True),
                       (PStr ''count'', PInt (int (df_len jobs_df))),
                       (PStr ''data'', PList data_json),
                       (PStr ''metadata'',
                          PDict [(PStr ''unique_companies'', unique_companies),
                                 (PStr ''top_locations'', top_locations)])]))))"

text \<open>Lines 47 to 106; the handler logs and returns the same two fields.\<close>

definition scrape_job_listings ::
  "((string \<rightharpoonup> pyval) \<Rightarrow> exn + dataframe) \<Rightarrow> ((cell \<times> nat) list \<Rightarrow> (cell \<times> nat) list)
     \<Rightarrow> arguments \<Rightarrow> exn + pyval" where
  "scrape_job_listings scrape_jobs sort_counts a =
     try_except_Exception
       (bind_exn (scrape_job_listings_params a) (\<lambda>params.
        bind_exn (scrape_jobs params) (\<lambda>jobs_df.
        scrape_job_listings_result sort_counts jobs_df)))
       (\<lambda>e. PDict [(PStr ''success'', PBool False), (PStr ''error'', PStr (str_exn e))])"

section \<open>Results named by the specification\<close>

text \<open>The result the specification gives for an engine that finds no job.\<close>

definition no_jobs_found :: pyval where
  "no_jobs_found =
     PDict [(PStr ''success'', PBool True),
            (PStr ''count'', PInt 0),
            (PStr ''data'', PList []),
            (PStr ''message'', PStr ''No jobs found. Try adjusting your filters.'')]"

text \<open>
  The parameter set forwarded to the engine, said of a call as a function \<open>run\<close> of the
  engine it is given: the outcome of the call changes with the engine, and two engines
  that answer alike for \<open>p\<close> give the same outcome. So the call asks the engine for
  \<open>p\<close> and for nothing else.
\<close>

definition engine_called_with ::
  "(((string \<rightharpoonup> pyval) \<Rightarrow> exn + dataframe) \<Rightarrow> exn + pyval) \<Rightarrow> (string \<rightharpoonup> pyval) \<Rightarrow> bool" where
  "engine_called_with run p =
     ((\<forall>engine engine'. engine p = engine' p \<longrightarrow> run engine = run engine')
      \<and> (\<exists>engine engine'. run engine \<noteq> run engine'))"



section \<open>Inputs used as examples\<close>





text \<open>
  Arguments: the defaults with one parameter changed. Overrides: one extra keyword of
  the scrape engine.
\<close>

definition enum_site :: arguments where
  "enum_site = default_args\<lparr>site_name := PList [PObject ''Site'']\<rparr>"

definition indeed_only :: arguments where
  "indeed_only = default_args\<lparr>site_name := PList [PStr ''indeed'']\<rparr>"

definition not_remote :: arguments where
  "not_remote = default_args\<lparr>is_remote := PBool False\<rparr>"

definition fulltime :: arguments where
  "fulltime = default_args\<lparr>job_type := PStr ''fulltime''\<rparr>"

definition html_descriptions :: "string \<rightharpoonup> pyval" where
  "html_descriptions = [''description_format'' \<mapsto> PStr ''html'']"









section \<open>Facts about the building blocks\<close>

lemma bind_exn_Inl [simp]: "bind_exn (Inl e) f = Inl e"
  by (simp add: bind_exn_def)

lemma bind_exn_Inr [simp]: "bind_exn (Inr x) f = f x"
  by (simp add: bind_exn_def)

lemma bind_exn_eq_Inr:
  "bind_exn m f = Inr y \<longleftrightarrow> (\<exists>x. m = Inr x \<and> f x = Inr y)"
  by (cases m) simp_all

lemma bind_exn_eq_Inl:
  "bind_exn m f = Inl e \<longleftrightarrow> m = Inl e \<or> (\<exists>x. m = Inr x \<and> f x = Inl e)"
  by (cases m) simp_all

lemma truth_raises_Exception: "truth v = Inl e \<Longrightarrow> from_Exception e"
  by (cases v) (auto simp: ValueError_def)

lemma py_or_raises_Exception: "py_or x y = Inl e \<Longrightarrow> from_Exception e"
  by (auto simp: py_or_def bind_exn_eq_Inl dest: truth_raises_Exception)

lemma join_items_raises_Exception: "join_items sep i xs = Inl e \<Longrightarrow> from_Exception e"
  by (induction sep i xs rule: join_items.induct) (auto simp: bind_exn_eq_Inl TypeError_def)

lemma py_join_raises_Exception: "py_join sep v = Inl e \<Longrightarrow> from_Exception e"
  by (auto simp: py_join_def TypeError_def split: option.splits dest: join_items_raises_Exception)

lemma jobspy_scraper_params_raises_Exception:
  "jobspy_scraper_params a kwargs = Inl e \<Longrightarrow> from_Exception e"
  by (auto simp: jobspy_scraper_params_def Let_def bind_exn_eq_Inl
           dest: truth_raises_Exception py_or_raises_Exception)

lemma scrape_job_listings_params_raises_Exception:
  "scrape_job_listings_params a = Inl e \<Longrightarrow> from_Exception e"
  by (auto simp: scrape_job_listings_params_def Let_def bind_exn_eq_Inl
           dest: truth_raises_Exception py_or_raises_Exception py_join_raises_Exception)

lemma getitem_raises_Exception: "getitem df name = Inl e \<Longrightarrow> from_Exception e"
  by (auto simp: getitem_def Let_def KeyError_def split: if_splits)

lemma int_nunique_raises_Exception:
  assumes "int_nunique df name = Inl e"
  shows "from_Exception e"
proof (cases "getitem df name")
  case (Inl e')
  with assms show ?thesis by (simp add: int_nunique_def getitem_raises_Exception)
next
  case (Inr sel)
  with assms show ?thesis by (cases sel) (auto simp: int_nunique_def TypeError_def)
qed

lemma top_value_counts_raises_Exception:
  assumes "top_value_counts sc df name = Inl e"
  shows "from_Exception e"
proof (cases "getitem df name")
  case (Inl e')
  with assms show ?thesis by (simp add: top_value_counts_def getitem_raises_Exception)
next
  case (Inr sel)
  with assms show ?thesis by (cases sel) (auto simp: top_value_counts_def ValueError_def)
qed

lemma results_agree: "scrape_job_listings_result sc df = jobspy_scraper_result sc df"
  unfolding scrape_job_listings_result_def jobspy_scraper_result_def ..

lemma jobspy_scraper_result_raises_Exception:
  "jobspy_scraper_result sc df = Inl e \<Longrightarrow> from_Exception e"
  by (auto simp: jobspy_scraper_result_def Let_def bind_exn_eq_Inl
           dest: int_nunique_raises_Exception top_value_counts_raises_Exception
           split: if_splits)

lemma jobspy_scraper_result_success:
  "jobspy_scraper_result sc df = Inr r \<Longrightarrow> dict_get r ''success'' = Some (PBool True)"
  by (auto simp: jobspy_scraper_result_def Let_def bind_exn_eq_Inr split: if_splits)

lemma jobspy_scraper_result_empty:
  "df_empty df \<Longrightarrow> jobspy_scraper_result sc df = Inr no_jobs_found"
  by (simp add: jobspy_scraper_result_def no_jobs_found_def)

lemma failure_success: "dict_get (failure e) ''success'' = Some (PBool False)"
  by (simp add: failure_def)

lemma try_except_Exception_Inr [simp]: "try_except_Exception (Inr r) h = Inr r"
  by (simp add: try_except_Exception_def)

lemma try_except_Exception_caught:
  "from_Exception e \<Longrightarrow> try_except_Exception (Inl e) h = Inr (h e)"
  by (simp add: try_except_Exception_def)

lemma try_except_Exception_passed:
  "\<not> from_Exception e \<Longrightarrow> try_except_Exception (Inl e) h = Inl e"
  by (simp add: try_except_Exception_def)

lemma default_params:
  "jobspy_scraper_params default_args Map.empty = Inr
     [''site_name'' \<mapsto> default_site_name,
      ''search_term'' \<mapsto> PStr ''Software Engineer'',
      ''google_search_term'' \<mapsto> PStr ''Software Engineer'',
      ''location'' \<mapsto> PStr ''San Francisco, CA'',
      ''country_indeed'' \<mapsto> PStr ''USA'',
      ''results_wanted'' \<mapsto> PInt 20,
      ''hours_old'' \<mapsto> PInt 72,
      ''distance'' \<mapsto> PInt 50,
      ''offset'' \<mapsto> PInt 0,
      ''verbose'' \<mapsto> PInt 2,
      ''enforce_annual_salary'' \<mapsto> PBool False,
      ''linkedin_fetch_description'' \<mapsto> PBool False]"
  by (simp add: jobspy_scraper_params_def default_args_def py_or_def)

lemma default_params_tool:
  "scrape_job_listings_params default_args = Inr
     [''site_name'' \<mapsto> default_site_name,
      ''search_term'' \<mapsto> PStr ''Software Engineer'',
      ''google_search_term'' \<mapsto> PStr ''Software Engineer'',
      ''location'' \<mapsto> PStr ''San Francisco, CA'',
      ''country_indeed'' \<mapsto> PStr ''USA'',
      ''results_wanted'' \<mapsto> PInt 20,
      ''hours_old'' \<mapsto> PInt 72,
      ''distance'' \<mapsto> PInt 50,
      ''offset'' \<mapsto> PInt 0,
      ''verbose'' \<mapsto> PInt 2,
      ''enforce_annual_salary'' \<mapsto> PBool False,
      ''linkedin_fetch_description'' \<mapsto> PBool False]"
  by (simp add: scrape_job_listings_params_def default_args_def py_or_def py_join_def
        default_site_name_def)

lemma params_Series:
  "jobspy_scraper_params (default_args\<lparr>job_type := PSeries [PStr ''fulltime'', PStr ''contract'']\<rparr>)
     Map.empty
   = Inl (ValueError ''The truth value of a Series is ambiguous. Use a.empty, a.bool(), a.item(), a.any() or a.all().'')"
  by (simp add: jobspy_scraper_params_def default_args_def py_or_def)

lemma params_tool_int_site:
  "scrape_job_listings_params (default_args\<lparr>site_name := PList [PObject ''Site'']\<rparr>)
   = Inl (TypeError ''sequence item 0: expected str instance, Site found'')"
  by (simp add: scrape_job_listings_params_def default_args_def py_join_def str_nat.simps
        digit_char_def)

lemma kwargs_ok_absent:
  "kwargs_ok kwargs \<Longrightarrow> k \<in> parameter_names \<Longrightarrow> kwargs k = None"
  by (auto simp: kwargs_ok_def)

lemma param_name_members:
  "''is_remote'' \<in> parameter_names" "''easy_apply'' \<in> parameter_names"
  "''job_type'' \<in> parameter_names"
  by (simp_all add: parameter_names_def)

lemma Inr_map_add_split:
  "(Inr (m ++ k) = (Inr p :: exn + (string \<rightharpoonup> pyval))) \<longleftrightarrow> (\<exists>c. (Inr m :: exn + (string \<rightharpoonup> pyval)) = Inr c \<and> p = c ++ k)"
  by auto

lemma jobspy_scraper_params_split:
  "jobspy_scraper_params a kwargs = Inr p \<longleftrightarrow>
     (\<exists>computed. jobspy_scraper_params a Map.empty = Inr computed \<and> p = computed ++ kwargs)"
  unfolding jobspy_scraper_params_def Let_def
  by (cases "py_or (google_search_term a) (search_term a)"; cases "truth (job_type a)")
     (simp_all only: bind_exn_Inl bind_exn_Inr map_add_empty Inr_map_add_split sum.distinct simp_thms)

lemma jobspy_scraper_computed_flags:
  assumes "jobspy_scraper_params a Map.empty = Inr c"
  shows "c ''is_remote'' = (if is_remote a = PNone then None else Some (is_remote a))"
    and "c ''easy_apply'' = (if easy_apply a = PNone then None else Some (easy_apply a))"
    and "c ''job_type'' = (if truth (job_type a) = Inr True then Some (job_type a) else None)"
proof -
  obtain g where g: "py_or (google_search_term a) (search_term a) = Inr g"
    using assms by (cases "py_or (google_search_term a) (search_term a)")
      (simp_all add: jobspy_scraper_params_def)
  obtain jt where jt: "truth (job_type a) = Inr jt"
    using assms g by (cases "truth (job_type a)") (simp_all add: jobspy_scraper_params_def)
  have c: "Inr c = jobspy_scraper_params a Map.empty" using assms by simp
  from c [unfolded jobspy_scraper_params_def Let_def g jt bind_exn_Inr map_add_empty sum.inject]
  show "c ''is_remote'' = (if is_remote a = PNone then None else Some (is_remote a))"
    and "c ''easy_apply'' = (if easy_apply a = PNone then None else Some (easy_apply a))"
    and "c ''job_type'' = (if truth (job_type a) = Inr True then Some (job_type a) else None)"
    by (simp_all add: jt)
qed

lemma scrape_job_listings_params_eq:
  "scrape_job_listings_params a =
     bind_exn (py_join '', '' (if site_name a = PNone then default_site_name else site_name a))
       (\<lambda>joined. jobspy_scraper_params a Map.empty)"
  unfolding scrape_job_listings_params_def jobspy_scraper_params_def Let_def map_add_empty ..

lemma scrape_job_listings_params_Inr:
  "scrape_job_listings_params a = Inr q \<Longrightarrow> jobspy_scraper_params a Map.empty = Inr q"
  unfolding scrape_job_listings_params_eq
  by (cases "py_join '', '' (if site_name a = PNone then default_site_name else site_name a)")
     simp_all

lemma join_items_text: "\<exists>s. join_items sep i (map PStr names) = Inr s"
proof (induction names arbitrary: i)
  case Nil
  show ?case by simp
next
  case (Cons n names)
  from Cons [of "Suc i"] obtain t where "join_items sep (Suc i) (map PStr names) = Inr t" ..
  then show ?case by simp
qed

lemma py_join_default_site_name: "\<exists>s. py_join sep default_site_name = Inr s"
  by (simp add: py_join_def default_site_name_def)

lemma kwargs_ok_html: "kwargs_ok html_descriptions"
  by (simp add: kwargs_ok_def html_descriptions_def parameter_names_def)

lemma params_enum_site: "\<exists>p. jobspy_scraper_params enum_site Map.empty = Inr p"
  by (simp add: jobspy_scraper_params_def enum_site_def default_args_def py_or_def)

lemma params_tool_enum_site:
  "scrape_job_listings_params enum_site
   = Inl (TypeError ''sequence item 0: expected str instance, Site found'')"
  using params_tool_int_site by (simp add: enum_site_def)

lemma jobspy_scraper_params_returns:
  assumes "truth (google_search_term a) = Inr g" and "truth (job_type a) = Inr j"
  shows "\<exists>p. jobspy_scraper_params a kwargs = Inr p"
  using assms by (simp add: jobspy_scraper_params_def py_or_def Let_def)

lemma scrape_job_listings_params_returns:
  assumes "site_name a = PNone \<or> py_join '', '' (site_name a) = Inr s"
    and "truth (google_search_term a) = Inr g" and "truth (job_type a) = Inr j"
  shows "\<exists>q. scrape_job_listings_params a = Inr q \<and> jobspy_scraper_params a Map.empty = Inr q"
proof -
  obtain q where q: "jobspy_scraper_params a Map.empty = Inr q"
    using jobspy_scraper_params_returns [OF assms(2,3)] by blast
  have "\<exists>t. py_join '', '' (if site_name a = PNone then default_site_name else site_name a)
                    = Inr t"
  proof (cases "site_name a = PNone")
    case True
    then show ?thesis using py_join_default_site_name [of "'', ''"] by simp
  next
    case False
    then show ?thesis using assms(1) by simp
  qed
  then obtain t
    where "py_join '', '' (if site_name a = PNone then default_site_name else site_name a)
             = Inr t" ..
  then have "scrape_job_listings_params a = Inr q"
    unfolding scrape_job_listings_params_eq using q by simp
  with q show ?thesis by blast
qed

lemma jobspy_scraper_calls_engine:
  assumes "jobspy_scraper_params a kwargs = Inr p"
  shows "engine_called_with (\<lambda>scrape_jobs. jobspy_scraper scrape_jobs sort_counts a kwargs) p"
proof -
  have "jobspy_scraper (\<lambda>p. Inl (Raised True ''a'')) sort_counts a kwargs
          \<noteq> jobspy_scraper (\<lambda>p. Inl (Raised True ''b'')) sort_counts a kwargs"
    by (simp add: jobspy_scraper_def assms try_except_Exception_caught failure_def)
  then have "\<exists>engine engine'. jobspy_scraper engine sort_counts a kwargs
                \<noteq> jobspy_scraper engine' sort_counts a kwargs"
    by blast
  then show ?thesis
    by (simp add: engine_called_with_def jobspy_scraper_def assms)
qed

lemma scrape_job_listings_calls_engine:
  assumes "scrape_job_listings_params a = Inr q"
  shows "engine_called_with (\<lambda>scrape_jobs. scrape_job_listings scrape_jobs sort_counts a) q"
proof -
  have "scrape_job_listings (\<lambda>p. Inl (Raised True ''a'')) sort_counts a
          \<noteq> scrape_job_listings (\<lambda>p. Inl (Raised True ''b'')) sort_counts a"
    by (simp add: scrape_job_listings_def assms try_except_Exception_caught)
  then have "\<exists>engine engine'. scrape_job_listings engine sort_counts a
                \<noteq> scrape_job_listings engine' sort_counts a"
    by blast
  then show ?thesis
    by (simp add: engine_called_with_def scrape_job_listings_def assms)
qed

lemma engine_called_with_unique:
  assumes "engine_called_with run p" and "engine_called_with run q"
  shows "p = q"
proof (rule ccontr)
  assume "p \<noteq> q"
  from assms(1) obtain e e' where diff: "run e \<noteq> run e'"
    unfolding engine_called_with_def by blast
  from assms(1) have at_p: "\<And>x y. x p = y p \<Longrightarrow> run x = run y"
    unfolding engine_called_with_def by blast
  from assms(2) have at_q: "\<And>x y. x q = y q \<Longrightarrow> run x = run y"
    unfolding engine_called_with_def by blast
  define m where "m = (\<lambda>x. if x = q then e' q else e x)"
  have "m p = e p" using \<open>p \<noteq> q\<close> by (simp add: m_def)
  then have "run m = run e" by (rule at_p)
  moreover have "m q = e' q" by (simp add: m_def)
  then have "run m = run e'" by (rule at_q)
  ultimately show False using diff by simp
qed

lemma forwarded_flags:
  assumes "jobspy_scraper_params a kwargs = Inr p" and "kwargs_ok kwargs"
  shows "p ''is_remote'' = (if is_remote a = PNone then None else Some (is_remote a))"
    and "p ''easy_apply'' = (if easy_apply a = PNone then None else Some (easy_apply a))"
    and "p ''job_type'' = (if truth (job_type a) = Inr True then Some (job_type a) else None)"
proof -
  from assms(1) obtain c where c: "jobspy_scraper_params a Map.empty = Inr c" "p = c ++ kwargs"
    using jobspy_scraper_params_split [of a kwargs p] by blast
  from assms(2) have k: "kwargs ''is_remote'' = None" "kwargs ''easy_apply'' = None"
    "kwargs ''job_type'' = None"
    by (simp_all add: kwargs_ok_absent param_name_members)
  show "p ''is_remote'' = (if is_remote a = PNone then None else Some (is_remote a))"
    using c(2) k jobspy_scraper_computed_flags(1) [OF c(1)] by (simp add: map_add_def)
  show "p ''easy_apply'' = (if easy_apply a = PNone then None else Some (easy_apply a))"
    using c(2) k jobspy_scraper_computed_flags(2) [OF c(1)] by (simp add: map_add_def)
  show "p ''job_type'' = (if truth (job_type a) = Inr True then Some (job_type a) else None)"
    using c(2) k jobspy_scraper_computed_flags(3) [OF c(1)] by (simp add: map_add_def)
qed

lemma kwargs_ok_empty: "kwargs_ok Map.empty"
  by (simp add: kwargs_ok_def)





lemma example_truths:
  "truth (google_search_term not_remote) = Inr False" "truth (job_type not_remote) = Inr False"
  "truth (google_search_term fulltime) = Inr False" "truth (job_type fulltime) = Inr True"
  "truth (google_search_term default_args) = Inr False" "truth (job_type default_args) = Inr False"
  "site_name not_remote = PNone" "site_name fulltime = PNone" "site_name default_args = PNone"
  by (simp_all add: not_remote_def fulltime_def default_args_def)

lemma example_fields:
  "is_remote not_remote = PBool False" "easy_apply not_remote = PNone"
  "job_type fulltime = PStr ''fulltime''" "job_type default_args = PStr []"
  by (simp_all add: not_remote_def fulltime_def default_args_def)





lemma surfaces_agree_if_joined:
  assumes "site_name a = PNone \<or> py_join '', '' (site_name a) = Inr s"
  shows "scrape_job_listings scrape_jobs sort_counts a
           = jobspy_scraper scrape_jobs sort_counts a Map.empty"
proof -
  have "\<exists>t. py_join '', '' (if site_name a = PNone then default_site_name else site_name a)
               = Inr t"
  proof (cases "site_name a = PNone")
    case True
    then show ?thesis using py_join_default_site_name [of "'', ''"] by simp
  next
    case False
    then show ?thesis using assms by simp
  qed
  then have "scrape_job_listings_params a = jobspy_scraper_params a Map.empty"
    unfolding scrape_job_listings_params_eq by auto
  then show ?thesis
    unfolding scrape_job_listings_def jobspy_scraper_def results_agree failure_def by simp
qed




























section \<open>The claims\<close>

text \<open>
  C1 (as amended). Whatever the arguments, and whenever the scrape engine returns a table
  or raises an exception that is an instance of \<^verbatim>\<open>Exception\<close>, a call of either
  surface returns a dictionary with a boolean \<^verbatim>\<open>success\<close> field and no exception
  reaches the caller.
\<close>

theorem always_success_field:
  assumes "\<forall>p e. scrape_jobs p = Inl e \<longrightarrow> from_Exception e"
  shows "(\<exists>r b. jobspy_scraper scrape_jobs sort_counts a kwargs = Inr r
                \<and> dict_get r ''success'' = Some (PBool b))
       \<and> (\<exists>r b. scrape_job_listings scrape_jobs sort_counts a = Inr r
                \<and> dict_get r ''success'' = Some (PBool b))"
proof
  show "\<exists>r b. jobspy_scraper scrape_jobs sort_counts a kwargs = Inr r
              \<and> dict_get r ''success'' = Some (PBool b)"
  proof (cases "jobspy_scraper_params a kwargs")
    case (Inl e)
    then have "from_Exception e" by (rule jobspy_scraper_params_raises_Exception)
    with Inl show ?thesis
      by (auto simp: jobspy_scraper_def try_except_Exception_caught failure_success)
  next
    case (Inr p)
    show ?thesis
    proof (cases "scrape_jobs p")
      case (Inl e)
      with assms have "from_Exception e" by blast
      with Inl Inr show ?thesis
        by (auto simp: jobspy_scraper_def try_except_Exception_caught failure_success)
    next
      case (Inr df)
      show ?thesis
      proof (cases "jobspy_scraper_result sort_counts df")
        case (Inl e)
        then have "from_Exception e" by (rule jobspy_scraper_result_raises_Exception)
        with Inl Inr \<open>jobspy_scraper_params a kwargs = Inr p\<close> show ?thesis
          by (auto simp: jobspy_scraper_def try_except_Exception_caught failure_success)
      next
        case (Inr r)
        with \<open>scrape_jobs p = Inr df\<close> \<open>jobspy_scraper_params a kwargs = Inr p\<close>
        show ?thesis
          by (auto simp: jobspy_scraper_def jobspy_scraper_result_success)
      qed
    qed
  qed
next
  show "\<exists>r b. scrape_job_listings scrape_jobs sort_counts a = Inr r
              \<and> dict_get r ''success'' = Some (PBool b)"
  proof (cases "scrape_job_listings_params a")
    case (Inl e)
    then have "from_Exception e" by (rule scrape_job_listings_params_raises_Exception)
    with Inl show ?thesis
      by (auto simp: scrape_job_listings_def try_except_Exception_caught)
  next
    case (Inr p)
    show ?thesis
    proof (cases "scrape_jobs p")
      case (Inl e)
      with assms have "from_Exception e" by blast
      with Inl Inr show ?thesis
        by (auto simp: scrape_job_listings_def try_except_Exception_caught)
    next
      case (Inr df)
      show ?thesis
      proof (cases "jobspy_scraper_result sort_counts df")
        case (Inl e)
        then have "from_Exception e" by (rule jobspy_scraper_result_raises_Exception)
        with Inl Inr \<open>scrape_job_listings_params a = Inr p\<close> show ?thesis
          by (auto simp: scrape_job_listings_def results_agree try_except_Exception_caught)
      next
        case (Inr r)
        with \<open>scrape_jobs p = Inr df\<close> \<open>scrape_job_listings_params a = Inr p\<close>
        show ?thesis
          by (auto simp: scrape_job_listings_def results_agree jobspy_scraper_result_success)
      qed
    qed
  qed
qed

text \<open>The engine refuses the connection; both surfaces still return a result.\<close>

theorem always_success_field_witness:
  "(\<exists>r b. jobspy_scraper (\<lambda>p. Inl (Raised True ''connection refused'')) stable_sort_counts
             default_args Map.empty = Inr r
          \<and> dict_get r ''success'' = Some (PBool b))
   \<and> (\<exists>r b. scrape_job_listings (\<lambda>p. Inl (Raised True ''connection refused'')) stable_sort_counts
             default_args = Inr r
          \<and> dict_get r ''success'' = Some (PBool b))"
  using always_success_field [of "\<lambda>p. Inl (Raised True ''connection refused'')"
          stable_sort_counts default_args Map.empty]
  by simp

text \<open>
  C1 as stated fails: \<^verbatim>\<open>except Exception\<close> does not catch \<^verbatim>\<open>KeyboardInterrupt\<close>. When
  the engine raises it, the call returns nothing and the exception reaches the caller.
\<close>

theorem KeyboardInterrupt_propagates:
  "jobspy_scraper (\<lambda>p. Inl KeyboardInterrupt) stable_sort_counts default_args Map.empty
     = Inl KeyboardInterrupt
   \<and> \<not> (\<exists>r. jobspy_scraper (\<lambda>p. Inl KeyboardInterrupt) stable_sort_counts default_args Map.empty
             = Inr r)"
  by (simp add: jobspy_scraper_def default_params try_except_Exception_passed KeyboardInterrupt_def)

text \<open>
  C2 (as amended). If the scrape call raises an exception \<open>e\<close> that is an instance of
  \<^verbatim>\<open>Exception\<close>, the result has \<^verbatim>\<open>success\<close> false and \<^verbatim>\<open>error\<close> equal to the text
  \<^verbatim>\<open>str(e)\<close>, and has neither \<^verbatim>\<open>count\<close> nor \<^verbatim>\<open>data\<close>.
\<close>

theorem scrape_failure_result:
  assumes "from_Exception e"
  shows "(jobspy_scraper_params a kwargs = Inr p \<and> scrape_jobs p = Inl e \<longrightarrow>
            (\<exists>r. jobspy_scraper scrape_jobs sort_counts a kwargs = Inr r
                \<and> dict_get r ''success'' = Some (PBool False)
                \<and> dict_get r ''error'' = Some (PStr (str_exn e))
                \<and> dict_get r ''count'' = None \<and> dict_get r ''data'' = None))
       \<and> (scrape_job_listings_params a = Inr q \<and> scrape_jobs q = Inl e \<longrightarrow>
            (\<exists>r. scrape_job_listings scrape_jobs sort_counts a = Inr r
                \<and> dict_get r ''success'' = Some (PBool False)
                \<and> dict_get r ''error'' = Some (PStr (str_exn e))
                \<and> dict_get r ''count'' = None \<and> dict_get r ''data'' = None))"
  using assms
  by (simp add: jobspy_scraper_def scrape_job_listings_def try_except_Exception_caught failure_def)

text \<open>The engine refuses the connection: both surfaces report it.\<close>

theorem scrape_failure_result_witness:
  "(\<exists>r. jobspy_scraper (\<lambda>p. Inl (Raised True ''connection refused'')) stable_sort_counts
           default_args Map.empty = Inr r
        \<and> dict_get r ''success'' = Some (PBool False)
        \<and> dict_get r ''error'' = Some (PStr ''connection refused'')
        \<and> dict_get r ''count'' = None \<and> dict_get r ''data'' = None)
   \<and> (\<exists>r. scrape_job_listings (\<lambda>p. Inl (Raised True ''connection refused'')) stable_sort_counts
           default_args = Inr r
        \<and> dict_get r ''success'' = Some (PBool False)
        \<and> dict_get r ''error'' = Some (PStr ''connection refused'')
        \<and> dict_get r ''count'' = None \<and> dict_get r ''data'' = None)"
  using scrape_failure_result [of "Raised True ''connection refused''" default_args Map.empty _
          "\<lambda>p. Inl (Raised True ''connection refused'')" stable_sort_counts]
  by (simp add: default_params default_params_tool)

text \<open>
  C2 as stated fails: when the engine raises \<^verbatim>\<open>SystemExit\<close>, which is not an instance of
  \<^verbatim>\<open>Exception\<close>, no result with \<^verbatim>\<open>success\<close> false is returned; the exception reaches
  the caller.
\<close>

theorem SystemExit_propagates:
  "scrape_job_listings (\<lambda>p. Inl (SystemExit ''1'')) stable_sort_counts default_args
     = Inl (SystemExit ''1'')
   \<and> \<not> (\<exists>r. scrape_job_listings (\<lambda>p. Inl (SystemExit ''1'')) stable_sort_counts default_args = Inr r
            \<and> dict_get r ''success'' = Some (PBool False))"
  by (simp add: scrape_job_listings_def default_params_tool try_except_Exception_passed
        SystemExit_def)

text \<open>
  C3. If the scrape call returns a table with no rows, the result is \<^verbatim>\<open>success\<close> true,
  \<^verbatim>\<open>count\<close> 0, \<^verbatim>\<open>data\<close> the empty list and the message
  "No jobs found. Try adjusting your filters."; it has no \<^verbatim>\<open>metadata\<close> field.
\<close>

theorem no_rows_result:
  "(jobspy_scraper_params a kwargs = Inr p \<and> scrape_jobs p = Inr df \<and> rows df = [] \<longrightarrow>
      jobspy_scraper scrape_jobs sort_counts a kwargs = Inr no_jobs_found)
   \<and> (scrape_job_listings_params a = Inr q \<and> scrape_jobs q = Inr df' \<and> rows df' = [] \<longrightarrow>
      scrape_job_listings scrape_jobs sort_counts a = Inr no_jobs_found)
   \<and> dict_get no_jobs_found ''success'' = Some (PBool True)
   \<and> dict_get no_jobs_found ''count'' = Some (PInt 0)
   \<and> dict_get no_jobs_found ''data'' = Some (PList [])
   \<and> dict_get no_jobs_found ''message''
        = Some (PStr ''No jobs found. Try adjusting your filters.'')
   \<and> dict_get no_jobs_found ''metadata'' = None"
  by (simp add: jobspy_scraper_def scrape_job_listings_def results_agree
        jobspy_scraper_result_empty df_empty_def)
     (simp add: no_jobs_found_def)

text \<open>A table with two columns and no rows.\<close>

theorem no_rows_result_witness:
  "jobspy_scraper (\<lambda>p. Inr \<lparr>columns = [''title'', ''company''], rows = []\<rparr>) stable_sort_counts
     default_args Map.empty = Inr no_jobs_found
   \<and> scrape_job_listings (\<lambda>p. Inr \<lparr>columns = [''title'', ''company''], rows = []\<rparr>)
       stable_sort_counts default_args = Inr no_jobs_found"
  using no_rows_result [of default_args Map.empty _
          "\<lambda>p. Inr \<lparr>columns = [''title'', ''company''], rows = []\<rparr>"
          "\<lparr>columns = [''title'', ''company''], rows = []\<rparr>" stable_sort_counts _
          "\<lparr>columns = [''title'', ''company''], rows = []\<rparr>"]
  by (simp add: default_params default_params_tool)







text \<open>
  C6. When the parameters are assembled without an exception, each surface calls the
  engine with a parameter set in which \<^verbatim>\<open>is_remote\<close> and \<^verbatim>\<open>easy_apply\<close> are present
  exactly when the caller gave a value other than \<^verbatim>\<open>None\<close>, and then with that value:
  false is forwarded as false. On the plain surface the overrides hold no declared name.
\<close>

theorem optional_flags_forwarded:
  "(kwargs_ok kwargs \<and> truth (google_search_term a) = Inr g \<and> truth (job_type a) = Inr j \<longrightarrow>
      (\<exists>p. engine_called_with (\<lambda>scrape_jobs. jobspy_scraper scrape_jobs sort_counts a kwargs) p
          \<and> p ''is_remote'' = (if is_remote a = PNone then None else Some (is_remote a))
          \<and> p ''easy_apply'' = (if easy_apply a = PNone then None else Some (easy_apply a))))
   \<and> ((site_name a' = PNone \<or> py_join '', '' (site_name a') = Inr s)
        \<and> truth (google_search_term a') = Inr g' \<and> truth (job_type a') = Inr j' \<longrightarrow>
      (\<exists>q. engine_called_with (\<lambda>scrape_jobs. scrape_job_listings scrape_jobs sort_counts a') q
          \<and> q ''is_remote'' = (if is_remote a' = PNone then None else Some (is_remote a'))
          \<and> q ''easy_apply'' = (if easy_apply a' = PNone then None else Some (easy_apply a'))))"
proof (intro conjI impI)
  assume h: "kwargs_ok kwargs \<and> truth (google_search_term a) = Inr g \<and> truth (job_type a) = Inr j"
  then obtain p where p: "jobspy_scraper_params a kwargs = Inr p"
    using jobspy_scraper_params_returns [of a g j kwargs] by blast
  from h have ok: "kwargs_ok kwargs" by simp
  show "\<exists>p. engine_called_with (\<lambda>scrape_jobs. jobspy_scraper scrape_jobs sort_counts a kwargs) p
          \<and> p ''is_remote'' = (if is_remote a = PNone then None else Some (is_remote a))
          \<and> p ''easy_apply'' = (if easy_apply a = PNone then None else Some (easy_apply a))"
    using jobspy_scraper_calls_engine [OF p, of sort_counts]
      forwarded_flags(1) [OF p ok] forwarded_flags(2) [OF p ok]
    by blast
next
  assume h: "(site_name a' = PNone \<or> py_join '', '' (site_name a') = Inr s)
        \<and> truth (google_search_term a') = Inr g' \<and> truth (job_type a') = Inr j'"
  then obtain q where q: "scrape_job_listings_params a' = Inr q"
    and q': "jobspy_scraper_params a' Map.empty = Inr q"
    using scrape_job_listings_params_returns [of a' s g' j'] by blast
  show "\<exists>q. engine_called_with (\<lambda>scrape_jobs. scrape_job_listings scrape_jobs sort_counts a') q
          \<and> q ''is_remote'' = (if is_remote a' = PNone then None else Some (is_remote a'))
          \<and> q ''easy_apply'' = (if easy_apply a' = PNone then None else Some (easy_apply a'))"
    using scrape_job_listings_calls_engine [OF q, of sort_counts]
      forwarded_flags(1) [OF q' kwargs_ok_empty] forwarded_flags(2) [OF q' kwargs_ok_empty]
    by blast
qed

text \<open>\<^verbatim>\<open>is_remote=False\<close>, \<^verbatim>\<open>easy_apply\<close> left unset.\<close>

theorem optional_flags_forwarded_witness:
  "(\<exists>p. engine_called_with
          (\<lambda>scrape_jobs. jobspy_scraper scrape_jobs stable_sort_counts not_remote html_descriptions) p
        \<and> p ''is_remote'' = Some (PBool False) \<and> p ''easy_apply'' = None)
   \<and> (\<exists>q. engine_called_with
          (\<lambda>scrape_jobs. scrape_job_listings scrape_jobs stable_sort_counts not_remote) q
        \<and> q ''is_remote'' = Some (PBool False) \<and> q ''easy_apply'' = None)"
  using optional_flags_forwarded [where kwargs = html_descriptions and a = not_remote
          and g = False and j = False and sort_counts = stable_sort_counts
          and a' = not_remote and g' = False and j' = False]
  by (simp add: kwargs_ok_html example_truths example_fields)

text \<open>
  C7. When the parameters are assembled without an exception, each surface calls the
  engine with a parameter set in which \<^verbatim>\<open>job_type\<close> is present exactly when its value is
  true for Python, and then with that value; for a text value, exactly when the text is
  not empty.
\<close>

theorem job_type_forwarded:
  "(kwargs_ok kwargs \<and> truth (google_search_term a) = Inr g \<and> truth (job_type a) = Inr j \<longrightarrow>
      (\<exists>p. engine_called_with (\<lambda>scrape_jobs. jobspy_scraper scrape_jobs sort_counts a kwargs) p
          \<and> p ''job_type'' = (if j then Some (job_type a) else None)
          \<and> (\<forall>t. job_type a = PStr t \<longrightarrow> (''job_type'' \<in> dom p \<longleftrightarrow> t \<noteq> []))))
   \<and> ((site_name a' = PNone \<or> py_join '', '' (site_name a') = Inr s)
        \<and> truth (google_search_term a') = Inr g' \<and> truth (job_type a') = Inr j' \<longrightarrow>
      (\<exists>q. engine_called_with (\<lambda>scrape_jobs. scrape_job_listings scrape_jobs sort_counts a') q
          \<and> q ''job_type'' = (if j' then Some (job_type a') else None)
          \<and> (\<forall>t. job_type a' = PStr t \<longrightarrow> (''job_type'' \<in> dom q \<longleftrightarrow> t \<noteq> []))))"
proof (intro conjI impI)
  assume h: "kwargs_ok kwargs \<and> truth (google_search_term a) = Inr g \<and> truth (job_type a) = Inr j"
  then obtain p where p: "jobspy_scraper_params a kwargs = Inr p"
    using jobspy_scraper_params_returns [of a g j kwargs] by blast
  from h have ok: "kwargs_ok kwargs" and j: "truth (job_type a) = Inr j" by simp_all
  have 1: "p ''job_type'' = (if j then Some (job_type a) else None)"
    using forwarded_flags(3) [OF p ok] j by simp
  have 2: "\<forall>t. job_type a = PStr t \<longrightarrow> (''job_type'' \<in> dom p \<longleftrightarrow> t \<noteq> [])"
    using 1 j by (auto simp: dom_def)
  show "\<exists>p. engine_called_with (\<lambda>scrape_jobs. jobspy_scraper scrape_jobs sort_counts a kwargs) p
          \<and> p ''job_type'' = (if j then Some (job_type a) else None)
          \<and> (\<forall>t. job_type a = PStr t \<longrightarrow> (''job_type'' \<in> dom p \<longleftrightarrow> t \<noteq> []))"
    using jobspy_scraper_calls_engine [OF p, of sort_counts] 1 2 by blast
next
  assume h: "(site_name a' = PNone \<or> py_join '', '' (site_name a') = Inr s)
        \<and> truth (google_search_term a') = Inr g' \<and> truth (job_type a') = Inr j'"
  then obtain q where q: "scrape_job_listings_params a' = Inr q"
    and q': "jobspy_scraper_params a' Map.empty = Inr q"
    using scrape_job_listings_params_returns [of a' s g' j'] by blast
  from h have j: "truth (job_type a') = Inr j'" by simp
  have 1: "q ''job_type'' = (if j' then Some (job_type a') else None)"
    using forwarded_flags(3) [OF q' kwargs_ok_empty] j by simp
  have 2: "\<forall>t. job_type a' = PStr t \<longrightarrow> (''job_type'' \<in> dom q \<longleftrightarrow> t \<noteq> [])"
    using 1 j by (auto simp: dom_def)
  show "\<exists>q. engine_called_with (\<lambda>scrape_jobs. scrape_job_listings scrape_jobs sort_counts a') q
          \<and> q ''job_type'' = (if j' then Some (job_type a') else None)
          \<and> (\<forall>t. job_type a' = PStr t \<longrightarrow> (''job_type'' \<in> dom q \<longleftrightarrow> t \<noteq> []))"
    using scrape_job_listings_calls_engine [OF q, of sort_counts] 1 2 by blast
qed

text \<open>
  \<^verbatim>\<open>job_type="fulltime"\<close> is forwarded by the plain function; the default, the empty text,
  is left out by the toolkit method.
\<close>

theorem job_type_forwarded_witness:
  "(\<exists>p. engine_called_with
          (\<lambda>scrape_jobs. jobspy_scraper scrape_jobs stable_sort_counts fulltime html_descriptions) p
        \<and> p ''job_type'' = Some (PStr ''fulltime'') \<and> ''job_type'' \<in> dom p)
   \<and> (\<exists>q. engine_called_with
          (\<lambda>scrape_jobs. scrape_job_listings scrape_jobs stable_sort_counts default_args) q
        \<and> q ''job_type'' = None \<and> ''job_type'' \<notin> dom q)"
  using job_type_forwarded [where kwargs = html_descriptions and a = fulltime
          and g = False and j = True and sort_counts = stable_sort_counts
          and a' = default_args and g' = False and j' = False]
  by (simp add: kwargs_ok_html example_truths example_fields)




text \<open>
  C9. The surfaces are to return identical results for the same parameters. The code
  departs from that: for a \<^verbatim>\<open>site_name\<close> list that holds an item other than text, here
  a member of an enumeration, the toolkit method fails while building its log line
  (line 51) and returns the failure result; the plain function forwards the list and
  returns what the engine's table gives.
\<close>

theorem surfaces_differ_on_enum_site:
  "jobspy_scraper (\<lambda>p. Inr \<lparr>columns = [], rows = []\<rparr>) stable_sort_counts enum_site Map.empty
     = Inr no_jobs_found
   \<and> scrape_job_listings (\<lambda>p. Inr \<lparr>columns = [], rows = []\<rparr>) stable_sort_counts enum_site
     = Inr (PDict [(PStr ''success'', PBool False),
                   (PStr ''error'', PStr ''sequence item 0: expected str instance, Site found'')])
   \<and> scrape_job_listings (\<lambda>p. Inr \<lparr>columns = [], rows = []\<rparr>) stable_sort_counts enum_site
     \<noteq> jobspy_scraper (\<lambda>p. Inr \<lparr>columns = [], rows = []\<rparr>) stable_sort_counts enum_site
         Map.empty"
proof -
  obtain p where p: "jobspy_scraper_params enum_site Map.empty = Inr p"
    using params_enum_site by blast
  have 1: "jobspy_scraper (\<lambda>p. Inr \<lparr>columns = [], rows = []\<rparr>) stable_sort_counts enum_site
             Map.empty = Inr no_jobs_found"
    by (simp add: jobspy_scraper_def p jobspy_scraper_result_empty df_empty_def)
  have 2: "scrape_job_listings (\<lambda>p. Inr \<lparr>columns = [], rows = []\<rparr>) stable_sort_counts enum_site
     = Inr (PDict [(PStr ''success'', PBool False),
                   (PStr ''error'', PStr ''sequence item 0: expected str instance, Site found'')])"
    by (simp add: scrape_job_listings_def params_tool_enum_site try_except_Exception_caught
          TypeError_def)
  show ?thesis unfolding 1 2 by (simp add: no_jobs_found_def)
qed

text \<open>
  C10. The handler encloses the whole body: an exception raised while the parameters are
  assembled (taking the truth value of \<^verbatim>\<open>google_search_term\<close> or \<^verbatim>\<open>job_type\<close>, or, in the
  toolkit method, building the log line) gives the result with \<^verbatim>\<open>success\<close> false and
  \<^verbatim>\<open>error\<close> the text of the exception.
\<close>

theorem assembly_failure_result:
  "(jobspy_scraper_params a kwargs = Inl e \<longrightarrow>
      jobspy_scraper scrape_jobs sort_counts a kwargs
        = Inr (PDict [(PStr ''success'', PBool False), (PStr ''error'', PStr (str_exn e))]))
   \<and> (scrape_job_listings_params a' = Inl e' \<longrightarrow>
      scrape_job_listings scrape_jobs sort_counts a'
        = Inr (PDict [(PStr ''success'', PBool False), (PStr ''error'', PStr (str_exn e'))]))"
  by (auto simp: jobspy_scraper_def scrape_job_listings_def try_except_Exception_caught failure_def
      dest: jobspy_scraper_params_raises_Exception scrape_job_listings_params_raises_Exception)

text \<open>
  A Series as \<^verbatim>\<open>job_type\<close> for the plain function; a list holding an enumeration member
  as \<^verbatim>\<open>site_name\<close> for the toolkit method.
\<close>

theorem assembly_failure_result_witness:
  "jobspy_scraper (\<lambda>p. Inr \<lparr>columns = [], rows = []\<rparr>) stable_sort_counts
     (default_args\<lparr>job_type := PSeries [PStr ''fulltime'', PStr ''contract'']\<rparr>) Map.empty
     = Inr (PDict [(PStr ''success'', PBool False),
                   (PStr ''error'', PStr ''The truth value of a Series is ambiguous. Use a.empty, a.bool(), a.item(), a.any() or a.all().'')])
   \<and> scrape_job_listings (\<lambda>p. Inr \<lparr>columns = [], rows = []\<rparr>) stable_sort_counts (default_args\<lparr>site_name := PList [PObject ''Site'']\<rparr>)
     = Inr (PDict [(PStr ''success'', PBool False),
                   (PStr ''error'', PStr ''sequence item 0: expected str instance, Site found'')])"
  using assembly_failure_result [of
          "default_args\<lparr>job_type := PSeries [PStr ''fulltime'', PStr ''contract'']\<rparr>" Map.empty
          "ValueError ''The truth value of a Series is ambiguous. Use a.empty, a.bool(), a.item(), a.any() or a.all().''"
          "\<lambda>p. Inr \<lparr>columns = [], rows = []\<rparr>" stable_sort_counts
          "default_args\<lparr>site_name := PList [PObject ''Site'']\<rparr>"
          "TypeError ''sequence item 0: expected str instance, Site found''"]
  by (simp add: params_Series params_tool_int_site ValueError_def TypeError_def)

end
